theory Spec2Isabelle
  imports Complex_Main "HOL-Library.Sublist"
begin

section \<open>The schedule card: values and objects\<close>

text \<open>
  The card (\<^verbatim>\<open>enphase-schedule-card.js\<close>, class \<^verbatim>\<open>EnphaseScheduleCard\<close>) keeps two drafts,
  a selection and an error message in \<^verbatim>\<open>this._state\<close>, reads the authoritative schedules
  from \<^verbatim>\<open>this._hass.states\<close> and sends its requests through \<^verbatim>\<open>this._hass.callService\<close>.

  A JavaScript number is a double. The card only compares a limit with \<open>0\<close> and \<open>100\<close>
  and tests it for NaN, so a number is modelled as a rational (every finite double is
  one), NaN, or one of the two infinities; the comparison below is the one of the
  language: every comparison with NaN is false.
\<close>

datatype jsnum = Finite rat | NaN | PosInfinity | NegInfinity

fun js_less :: "jsnum \<Rightarrow> jsnum \<Rightarrow> bool" where
  "js_less NaN _ = False"
| "js_less _ NaN = False"
| "js_less (Finite a) (Finite b) = (a < b)"
| "js_less (Finite a) PosInfinity = True"
| "js_less (Finite a) NegInfinity = False"
| "js_less PosInfinity _ = False"
| "js_less NegInfinity NegInfinity = False"
| "js_less NegInfinity _ = True"

definition isNaN :: "jsnum \<Rightarrow> bool" where
  "isNaN n = (n = NaN)"

text \<open>
  The limit of a draft is always a number: \<^verbatim>\<open>_emptySchedule\<close> writes \<open>0\<close>, the change
  listeners write \<^verbatim>\<open>Number(event.target.value)\<close>, and \<^verbatim>\<open>_onSelectSchedule\<close> copies the
  numeric limit of a schedule. On a number, \<^verbatim>\<open>Number(x)\<close> is \<open>x\<close>.
\<close>

definition Number :: "jsnum \<Rightarrow> jsnum" where
  "Number v = v"

text \<open>
  Arrays are objects: two fields may hold the same array, and \<^verbatim>\<open>_toggleDay\<close> changes an
  array in place. The heap maps an address to the array stored there; \<open>next_free\<close> is the
  first address never handed out. Day codes are integers (the day chips carry
  \<^verbatim>\<open>data-day\<close> 1 to 7).
\<close>

type_synonym addr = nat

record js_heap =
  array_at :: "addr \<Rightarrow> int list"
  next_free :: addr

definition alloc :: "js_heap \<Rightarrow> int list \<Rightarrow> addr \<times> js_heap" where
  "alloc h xs =
     (next_free h,
      h\<lparr>array_at := (array_at h)(next_free h := xs), next_free := Suc (next_free h)\<rparr>)"

text \<open>A draft, as \<^verbatim>\<open>_emptySchedule\<close> builds it; \<open>days\<close> is a reference to an array.\<close>

record draft =
  schedule_type :: string
  start_time :: string
  end_time :: string
  limit :: jsnum
  days :: addr

definition emptySchedule :: "js_heap \<Rightarrow> string \<Rightarrow> draft \<times> js_heap" where
  "emptySchedule h defaultType =
     (let (a, h') = alloc h []
      in (\<lparr>schedule_type = (if defaultType = [] then ''cfg'' else defaultType),
           start_time = ''00:00'',
           end_time = ''00:00'',
           limit = Finite 0,
           days = a\<rparr>, h'))"

section \<open>Validation\<close>

text \<open>
  \<^verbatim>\<open>_validate(schedule)\<close> returns a message, or the empty string when the draft passes.
  The \<open>days\<close> of a draft always refers to an array (\<^verbatim>\<open>[]\<close> or a spread copy), so
  \<^verbatim>\<open>!Array.isArray(schedule.days)\<close> is false and the second test is the length test.
\<close>

definition validate :: "js_heap \<Rightarrow> draft \<Rightarrow> string" where
  "validate h schedule =
     (if start_time schedule = end_time schedule then ''Start time and end time must differ.''
      else if length (array_at h (days schedule)) = 0 then ''Select at least one day.''
      else
        (let lim = Number (limit schedule)
         in if isNaN lim \<or> js_less lim (Finite 0) \<or> js_less (Finite 100) lim
            then ''Limit must be between 0 and 100.''
            else ''''))"

section \<open>The working state, the host connection and the card\<close>

text \<open>
  An authoritative schedule, as the entity's \<^verbatim>\<open>attributes.schedules\<close> lists it (fields
  \<^verbatim>\<open>id\<close>, \<^verbatim>\<open>type\<close>, \<^verbatim>\<open>start\<close>, \<^verbatim>\<open>end\<close>, \<^verbatim>\<open>limit\<close>, \<^verbatim>\<open>days\<close>). The id is a string: the card
  looks a schedule up with \<^verbatim>\<open>===\<close> against a DOM attribute.
\<close>

record schedule =
  sched_id :: string
  sched_type :: string
  sched_start :: string
  sched_end :: string
  sched_limit :: jsnum
  sched_days :: addr

text \<open>
  \<^verbatim>\<open>entity.attributes\<close> may be missing, and \<^verbatim>\<open>attributes.schedules\<close> may be something
  else than an array: both are \<open>None\<close> here.
\<close>

record entity_attributes =
  schedules :: "schedule list option"

record hass_entity =
  attributes :: "entity_attributes option"

text \<open>
  What \<^verbatim>\<open>callService\<close> receives: the update payload (\<^verbatim>\<open>schedule_id\<close>, \<^verbatim>\<open>schedule_type\<close>,
  \<^verbatim>\<open>start_time\<close>, \<^verbatim>\<open>end_time\<close>, \<^verbatim>\<open>limit\<close>, \<^verbatim>\<open>days\<close>, \<^verbatim>\<open>confirm\<close>), the delete payload
  (\<^verbatim>\<open>schedule_id\<close>, \<^verbatim>\<open>confirm\<close>) and the add payload (\<^verbatim>\<open>schedule_type\<close>, \<^verbatim>\<open>start_time\<close>,
  \<^verbatim>\<open>end_time\<close>, \<^verbatim>\<open>limit\<close>, \<^verbatim>\<open>days\<close>), in the order the source writes the fields. The
  payload holds the days as the array reads when the call is made.
\<close>

datatype service_data =
    UpdateData string string string string jsnum "int list" bool
  | DeleteData string bool
  | AddData string string string jsnum "int list"

type_synonym service_call = "string \<times> string \<times> service_data"

text \<open>
  \<^verbatim>\<open>callService(domain, service, data)\<close> returns a promise; \<open>callService\<close> below gives the
  way that promise settles: resolved, or rejected with the remote side's reason.
\<close>

datatype remote_result = Resolved | Rejected string

record hass =
  states :: "string \<Rightarrow> hass_entity option"
  callService :: "string \<Rightarrow> string \<Rightarrow> service_data \<Rightarrow> remote_result"

record config =
  domain :: string
  add_service :: string
  update_service :: string
  delete_service :: string
  entity :: string

record ui_state =
  selectedId :: "string option"
  edit :: draft
  add :: draft
  error :: string

text \<open>
  The card: \<^verbatim>\<open>_config\<close> and \<^verbatim>\<open>_hass\<close> (both null after the constructor), \<^verbatim>\<open>_state\<close>, the
  arrays its objects refer to, and the trace of the calls that reached
  \<^verbatim>\<open>hass.callService\<close>, oldest first. The card never reads the promise of a call, so
  nothing in it tells a call that has settled from one that is still in flight.
\<close>

record card =
  config :: "config option"
  hass :: "hass option"
  state :: ui_state
  calls :: "service_call list"
  heap :: js_heap

text \<open>
  Reading a property of \<^verbatim>\<open>null\<close> throws a TypeError. A method either returns or
  throws; in both cases the assignments it made before stay.
\<close>

datatype js_error = TypeError

datatype completion = Returns card | Throws js_error card

fun card_after :: "completion \<Rightarrow> card" where
  "card_after (Returns c) = c"
| "card_after (Throws e c) = c"

definition new_card :: "js_heap \<Rightarrow> card" where
  "new_card h =
     (let (e, h1) = emptySchedule h ''cfg'';
          (a, h2) = emptySchedule h1 ''cfg''
      in \<lparr>config = None, hass = None,
          state = \<lparr>selectedId = None, edit = e, add = a, error = ''''\<rparr>,
          calls = [], heap = h2\<rparr>)"

text \<open>
  \<^verbatim>\<open>_render()\<close> rewrites the shadow DOM from the state and binds the listeners again. It
  assigns nothing in \<^verbatim>\<open>_state\<close>, \<^verbatim>\<open>_hass\<close> or \<^verbatim>\<open>_config\<close> and changes no array.
\<close>

definition render :: "card \<Rightarrow> card" where
  "render c = c"

definition assign_error :: "card \<Rightarrow> string \<Rightarrow> card" where
  "assign_error c msg = c\<lparr>state := (state c)\<lparr>error := msg\<rparr>\<rparr>"

text \<open>
  \<^verbatim>\<open>hass.callService\<close>: the call reaches the host (it joins the trace) and a promise comes
  back. \<^verbatim>\<open>_serviceCall\<close> returns at once when \<^verbatim>\<open>_hass\<close> is null; otherwise it makes the
  call and drops the promise.
\<close>

definition hass_callService ::
  "card \<Rightarrow> hass \<Rightarrow> string \<Rightarrow> string \<Rightarrow> service_data \<Rightarrow> card \<times> remote_result" where
  "hass_callService c h dmn service data =
     (c\<lparr>calls := calls c @ [(dmn, service, data)]\<rparr>, callService h dmn service data)"

definition serviceCall :: "card \<Rightarrow> string \<Rightarrow> service_data \<Rightarrow> completion" where
  "serviceCall c service data =
     (case hass c of
        None \<Rightarrow> Returns c
      | Some h \<Rightarrow>
          (case config c of
             None \<Rightarrow> Throws TypeError c
           | Some cfg \<Rightarrow> Returns (fst (hass_callService c h (domain cfg) service data))))"

definition getSchedules :: "card \<Rightarrow> schedule list" where
  "getSchedules c =
     (case hass c of
        None \<Rightarrow> []
      | Some h \<Rightarrow>
          (case config c of
             None \<Rightarrow> []
           | Some cfg \<Rightarrow>
               (case states h (entity cfg) of
                  None \<Rightarrow> []
                | Some ent \<Rightarrow>
                    (case attributes ent of
                       None \<Rightarrow> []
                     | Some attrs \<Rightarrow>
                         (case schedules attrs of
                            None \<Rightarrow> []
                          | Some scheds \<Rightarrow> scheds)))))"

text \<open>
  \<^verbatim>\<open>_onSelectSchedule(id)\<close>: the spread \<^verbatim>\<open>[...selected.days]\<close> builds a new array with the
  elements of the schedule's array.
\<close>

definition onSelectSchedule :: "card \<Rightarrow> string \<Rightarrow> card" where
  "onSelectSchedule c i =
     (case find (\<lambda>sched. sched_id sched = i) (getSchedules c) of
        None \<Rightarrow> c
      | Some selected \<Rightarrow>
          (let (a, h') = alloc (heap c) (array_at (heap c) (sched_days selected))
           in render
                (c\<lparr>state := (state c)
                       \<lparr>selectedId := Some i,
                        edit := \<lparr>schedule_type = sched_type selected,
                                 start_time = sched_start selected,
                                 end_time = sched_end selected,
                                 limit = sched_limit selected,
                                 days = a\<rparr>,
                        error := ''''\<rparr>,
                   heap := h'\<rparr>)))"

section \<open>Toggling a day\<close>

text \<open>
  The array methods \<^verbatim>\<open>_toggleDay\<close> uses: \<^verbatim>\<open>indexOf\<close> gives the first index of the value
  or \<open>-1\<close>; \<^verbatim>\<open>splice(start, n)\<close> removes \<open>n\<close> elements from \<open>start\<close> on; \<^verbatim>\<open>push\<close> appends;
  \<^verbatim>\<open>sort((a, b) => a - b)\<close> sorts numbers in ascending order.
\<close>

fun indexOf :: "int list \<Rightarrow> int \<Rightarrow> int" where
  "indexOf [] d = - 1"
| "indexOf (x # xs) d =
     (if x = d then 0 else (let i = indexOf xs d in if i < 0 then - 1 else i + 1))"

definition array_splice :: "int list \<Rightarrow> nat \<Rightarrow> nat \<Rightarrow> int list" where
  "array_splice xs start n = take start xs @ drop (start + n) xs"

definition push :: "int list \<Rightarrow> int \<Rightarrow> int list" where
  "push xs d = xs @ [d]"

definition toggleDay :: "js_heap \<Rightarrow> draft \<Rightarrow> int \<Rightarrow> js_heap" where
  "toggleDay h target day =
     (let arr = array_at h (days target);
          idx = indexOf arr day
      in if idx \<ge> 0
         then h\<lparr>array_at := (array_at h)(days target := array_splice arr (nat idx) 1)\<rparr>
         else h\<lparr>array_at := (array_at h)(days target := sort (push arr day))\<rparr>)"

text \<open>
  The listeners \<^verbatim>\<open>_render\<close> binds to the inputs of the edit form and to its day chips:
  each assigns one field of the edit draft, or toggles a day and renders. \<open>EditLimit\<close>
  carries the value of the input as a number. The listeners close over the draft that
  \<^verbatim>\<open>_state.edit\<close> held at the last render; \<^verbatim>\<open>_onSelectSchedule\<close>, the only method that
  replaces the draft, renders right after, so this is always the current draft.
\<close>

datatype edit_event =
    EditType string
  | EditStart string
  | EditEnd string
  | EditLimit jsnum
  | EditDayChip int

fun on_edit_event :: "card \<Rightarrow> edit_event \<Rightarrow> card" where
  "on_edit_event c (EditType v) =
     c\<lparr>state := (state c)\<lparr>edit := (edit (state c))\<lparr>schedule_type := v\<rparr>\<rparr>\<rparr>"
| "on_edit_event c (EditStart v) =
     c\<lparr>state := (state c)\<lparr>edit := (edit (state c))\<lparr>start_time := v\<rparr>\<rparr>\<rparr>"
| "on_edit_event c (EditEnd v) =
     c\<lparr>state := (state c)\<lparr>edit := (edit (state c))\<lparr>end_time := v\<rparr>\<rparr>\<rparr>"
| "on_edit_event c (EditLimit v) =
     c\<lparr>state := (state c)\<lparr>edit := (edit (state c))\<lparr>limit := Number v\<rparr>\<rparr>\<rparr>"
| "on_edit_event c (EditDayChip day) =
     render (c\<lparr>heap := toggleDay (heap c) (edit (state c)) day\<rparr>)"

section \<open>Save, delete and add\<close>

text \<open>
  \<^verbatim>\<open>!this._state.selectedId\<close> holds for \<^verbatim>\<open>null\<close> and for the empty string. The argument
  \<^verbatim>\<open>this._config.update_service\<close> is evaluated before \<^verbatim>\<open>_serviceCall\<close> is entered, after
  the error has been cleared.
\<close>

definition handleSave :: "card \<Rightarrow> completion" where
  "handleSave c =
     (let err = validate (heap c) (edit (state c))
      in if err \<noteq> [] then Returns (render (assign_error c err))
         else
           (case selectedId (state c) of
              None \<Rightarrow> Returns (render (assign_error c ''Select a schedule to update.''))
            | Some sid \<Rightarrow>
                if sid = [] then Returns (render (assign_error c ''Select a schedule to update.''))
                else
                  (let c1 = assign_error c ''''
                   in case config c1 of
                        None \<Rightarrow> Throws TypeError c1
                      | Some cfg \<Rightarrow>
                          serviceCall c1 (update_service cfg)
                            (UpdateData sid
                               (schedule_type (edit (state c1)))
                               (start_time (edit (state c1)))
                               (end_time (edit (state c1)))
                               (Number (limit (edit (state c1))))
                               (array_at (heap c1) (days (edit (state c1))))
                               True))))"

definition handleDelete :: "card \<Rightarrow> completion" where
  "handleDelete c =
     (case selectedId (state c) of
        None \<Rightarrow> Returns (render (assign_error c ''Select a schedule to delete.''))
      | Some sid \<Rightarrow>
          if sid = [] then Returns (render (assign_error c ''Select a schedule to delete.''))
          else
            (let c1 = assign_error c ''''
             in case config c1 of
                  None \<Rightarrow> Throws TypeError c1
                | Some cfg \<Rightarrow> serviceCall c1 (delete_service cfg) (DeleteData sid True)))"

definition handleAdd :: "card \<Rightarrow> completion" where
  "handleAdd c =
     (let err = validate (heap c) (add (state c))
      in if err \<noteq> [] then Returns (render (assign_error c err))
         else
           (let c1 = assign_error c ''''
            in case config c1 of
                 None \<Rightarrow> Throws TypeError c1
               | Some cfg \<Rightarrow>
                   serviceCall c1 (add_service cfg)
                     (AddData
                        (schedule_type (add (state c1)))
                        (start_time (add (state c1)))
                        (end_time (add (state c1)))
                        (Number (limit (add (state c1))))
                        (array_at (heap c1) (days (add (state c1)))))))"

text \<open>The click listeners of the three buttons.\<close>

datatype button = SaveBtn | DeleteBtn | AddBtn

fun click :: "button \<Rightarrow> card \<Rightarrow> completion" where
  "click SaveBtn c = handleSave c"
| "click DeleteBtn c = handleDelete c"
| "click AddBtn c = handleAdd c"

section \<open>The vocabulary of the specification\<close>

text \<open>The spec's names for the outcomes of validation, as the messages of the code.\<close>

definition InvalidTimeRange :: string where
  "InvalidTimeRange = ''Start time and end time must differ.''"

definition LimitOutOfRange :: string where
  "LimitOutOfRange = ''Limit must be between 0 and 100.''"

definition Success :: string where
  "Success = ''''"

definition NoSelectionUpdate :: string where
  "NoSelectionUpdate = ''Select a schedule to update.''"

definition NoSelectionDelete :: string where
  "NoSelectionDelete = ''Select a schedule to delete.''"

text \<open>
  The limit rule in the words of the specification: the limit is an integer in
  \<open>[0,100]\<close>.
\<close>

definition spec_limit_ok :: "jsnum \<Rightarrow> bool" where
  "spec_limit_ok n =
     (case n of
        Finite q \<Rightarrow> of_int \<lfloor>q\<rfloor> = q \<and> 0 \<le> q \<and> q \<le> 100
      | _ \<Rightarrow> False)"

text \<open>
  The local preconditions of an operation: the draft it sends passes validation (save and
  add), and a schedule is selected (save and delete).
\<close>

definition has_selection :: "card \<Rightarrow> bool" where
  "has_selection c = (case selectedId (state c) of None \<Rightarrow> False | Some sid \<Rightarrow> sid \<noteq> [])"

fun preconditions :: "button \<Rightarrow> card \<Rightarrow> bool" where
  "preconditions SaveBtn c = (validate (heap c) (edit (state c)) = [] \<and> has_selection c)"
| "preconditions DeleteBtn c = has_selection c"
| "preconditions AddBtn c = (validate (heap c) (add (state c)) = [])"

text \<open>The calls a click adds to the trace.\<close>

definition issued :: "button \<Rightarrow> card \<Rightarrow> service_call list" where
  "issued b c = drop (length (calls c)) (calls (card_after (click b c)))"

text \<open>
  The snapshot the card exposes for rendering: both drafts (with the days their arrays
  hold), the selection and the error.
\<close>

type_synonym draft_fields = "string \<times> string \<times> string \<times> jsnum \<times> int list"

definition draft_view :: "js_heap \<Rightarrow> draft \<Rightarrow> draft_fields" where
  "draft_view h d = (schedule_type d, start_time d, end_time d, limit d, array_at h (days d))"

definition snapshot :: "card \<Rightarrow> draft_fields \<times> draft_fields \<times> string option \<times> string" where
  "snapshot c =
     (draft_view (heap c) (edit (state c)), draft_view (heap c) (add (state c)),
      selectedId (state c), error (state c))"

text \<open>What toggling does to the elements of the array, in terms of the list library.\<close>

definition toggled :: "int list \<Rightarrow> int \<Rightarrow> int list" where
  "toggled xs d = (if d \<in> set xs then remove1 d xs else sort (xs @ [d]))"

section \<open>Concrete cards\<close>

text \<open>
  The configuration \<^verbatim>\<open>setConfig\<close> builds from the README's card YAML, a host whose entity
  lists one schedule and whose calls all settle the same way, and a card in the middle of
  a session: schedule \<open>sched-1\<close> sits at address 0, the edit draft's days at 1, the add
  draft's days at 2, and an earlier error is still shown. The add draft is the one of the
  specification's add scenario.
\<close>

definition example_config :: config where
  "example_config =
     \<lparr>domain = ''enphase_envoy_cloud_control'',
      add_service = ''add_schedule'',
      update_service = ''update_schedule'',
      delete_service = ''delete_schedule'',
      entity = ''sensor.enphase_schedules_summary''\<rparr>"

definition example_schedule :: schedule where
  "example_schedule =
     \<lparr>sched_id = ''sched-1'', sched_type = ''cfg'', sched_start = ''08:00'',
      sched_end = ''09:00'', sched_limit = Finite 50, sched_days = 0\<rparr>"

definition example_hass :: "remote_result \<Rightarrow> hass" where
  "example_hass r =
     \<lparr>states = (\<lambda>e. if e = ''sensor.enphase_schedules_summary''
                     then Some \<lparr>attributes = Some \<lparr>schedules = Some [example_schedule]\<rparr>\<rparr>
                     else None),
      callService = (\<lambda>dmn service data. r)\<rparr>"

definition example_heap :: js_heap where
  "example_heap =
     \<lparr>array_at = (\<lambda>a. if a = 0 then [1, 2, 3] else if a = 1 then [1, 2, 3]
                      else if a = 2 then [6, 7] else []),
      next_free = 3\<rparr>"

definition example_card :: "hass option \<Rightarrow> string option \<Rightarrow> card" where
  "example_card hs sel =
     \<lparr>config = Some example_config,
      hass = hs,
      state =
        \<lparr>selectedId = sel,
         edit = \<lparr>schedule_type = ''cfg'', start_time = ''08:00'', end_time = ''09:00'',
                 limit = Finite 50, days = 1\<rparr>,
         add = \<lparr>schedule_type = ''dtg'', start_time = ''22:00'', end_time = ''06:00'',
                limit = Finite 40, days = 2\<rparr>,
         error = ''Select at least one day.''\<rparr>,
      calls = [],
      heap = example_heap\<rparr>"


text \<open>
  A card right after its construction, \<^verbatim>\<open>setConfig\<close> with the README's YAML and the first
  assignment of \<^verbatim>\<open>hass\<close>: nothing is selected and both drafts are empty. The array of
  the host's schedule \<open>sched-1\<close> is at address 0; the constructor's two arrays are at
  addresses 1 and 2, apart from it.
\<close>

definition fresh_card :: card where
  "fresh_card =
     (new_card \<lparr>array_at = (\<lambda>a. if a = 0 then [1, 2, 3] else []), next_free = 1\<rparr>)
       \<lparr>config := Some example_config, hass := Some (example_hass Resolved)\<rparr>"

section \<open>Lemmas about the array methods\<close>

lemma indexOf_mem: "(indexOf xs d \<ge> 0) = (d \<in> set xs)"
  by (induction xs) (auto simp: Let_def)

lemma indexOf_splice:
  "d \<in> set xs \<Longrightarrow> array_splice xs (nat (indexOf xs d)) 1 = remove1 d xs"
proof (induction xs)
  case Nil
  then show ?case by simp
next
  case (Cons x xs)
  show ?case
  proof (cases "x = d")
    case True
    then show ?thesis by (simp add: array_splice_def)
  next
    case False
    with Cons.prems have mem: "d \<in> set xs" by simp
    then have nn: "indexOf xs d \<ge> 0" by (simp add: indexOf_mem)
    have "nat (indexOf xs d + 1) = Suc (nat (indexOf xs d))" using nn by simp
    with False Cons.IH [OF mem] nn show ?thesis
      by (simp add: array_splice_def Let_def)
  qed
qed

lemma toggleDay_target:
  "array_at (toggleDay h t d) (days t) = toggled (array_at h (days t)) d"
  using indexOf_mem [of "array_at h (days t)" d]
  by (simp add: toggleDay_def toggled_def Let_def indexOf_splice push_def del: One_nat_def)

lemma toggleDay_other:
  "a \<noteq> days t \<Longrightarrow> array_at (toggleDay h t d) a = array_at h a"
  by (simp add: toggleDay_def Let_def)


lemma distinct_toggled: "distinct xs \<Longrightarrow> distinct (toggled xs d)"
  by (simp add: toggled_def)

lemma sorted_toggled: "d \<notin> set xs \<or> sorted xs \<Longrightarrow> sorted (toggled xs d)"
  by (auto simp: toggled_def sorted_remove1)


lemma set_toggled_twice: "distinct xs \<Longrightarrow> set (toggled (toggled xs d) d) = set xs"
  by (auto simp: toggled_def)

lemma toggled_twice_sorted:
  assumes "distinct xs" and "sorted xs"
  shows "toggled (toggled xs d) d = xs"
proof (rule sorted_distinct_set_unique)
  show "sorted (toggled (toggled xs d) d)"
    using assms by (simp add: sorted_toggled)
  show "distinct (toggled (toggled xs d) d)"
    using assms by (simp add: distinct_toggled)
  show "set (toggled (toggled xs d) d) = set xs"
    using assms by (simp add: set_toggled_twice)
qed (use assms in simp_all)

lemma floor_50_5: "\<lfloor>101 / 2 :: rat\<rfloor> = 50"
  by (simp add: floor_eq_iff)

section \<open>Lemmas about the handlers\<close>

lemma assign_error_fields:
  "config (assign_error c m) = config c"
  "hass (assign_error c m) = hass c"
  "calls (assign_error c m) = calls c"
  "heap (assign_error c m) = heap c"
  "error (state (assign_error c m)) = m"
  "edit (state (assign_error c m)) = edit (state c)"
  "add (state (assign_error c m)) = add (state c)"
  "selectedId (state (assign_error c m)) = selectedId (state c)"
  by (simp_all add: assign_error_def)

lemma serviceCall_hass:
  "config c = Some cfg \<Longrightarrow> hass c = Some h \<Longrightarrow>
   serviceCall c service data = Returns (c\<lparr>calls := calls c @ [(domain cfg, service, data)]\<rparr>)"
  by (simp add: serviceCall_def hass_callService_def)

lemmas handler_defs =
  handleSave_def handleDelete_def handleAdd_def serviceCall_def hass_callService_def
  render_def Let_def

lemma click_frame:
  "config (card_after (click b c)) = config c"
  "hass (card_after (click b c)) = hass c"
  "heap (card_after (click b c)) = heap c"
  "edit (state (card_after (click b c))) = edit (state c)"
  "add (state (card_after (click b c))) = add (state c)"
  "selectedId (state (card_after (click b c))) = selectedId (state c)"
  by (cases b; simp add: handler_defs assign_error_fields split: option.splits)+

lemma issued_cong:
  "config c' = config c \<Longrightarrow> hass c' = hass c \<Longrightarrow> heap c' = heap c \<Longrightarrow>
   edit (state c') = edit (state c) \<Longrightarrow> add (state c') = add (state c) \<Longrightarrow>
   selectedId (state c') = selectedId (state c) \<Longrightarrow> issued b c' = issued b c"
  by (cases b; simp add: issued_def handler_defs assign_error_fields split: option.splits)

lemma preconditions_cong:
  "heap c' = heap c \<Longrightarrow>
   edit (state c') = edit (state c) \<Longrightarrow> add (state c') = add (state c) \<Longrightarrow>
   selectedId (state c') = selectedId (state c) \<Longrightarrow> preconditions b c' = preconditions b c"
  by (cases b) (simp_all add: has_selection_def)

lemma click_dispatches:
  "config c = Some cfg \<Longrightarrow> hass c = Some h \<Longrightarrow> preconditions b c \<Longrightarrow>
   \<exists>call. click b c = Returns ((assign_error c [])\<lparr>calls := calls c @ [call]\<rparr>)"
  by (cases b; auto simp: handler_defs assign_error_fields has_selection_def split: option.splits)

lemma click_dispatches_issued:
  assumes "config c = Some cfg" "hass c = Some h" "preconditions b c"
  shows "click b c = Returns ((assign_error c [])\<lparr>calls := calls c @ issued b c\<rparr>)"
    and "length (issued b c) = 1"
proof -
  from click_dispatches [OF assms] obtain call
    where r: "click b c = Returns ((assign_error c [])\<lparr>calls := calls c @ [call]\<rparr>)" ..
  then have i: "issued b c = [call]" by (simp add: issued_def)
  show "click b c = Returns ((assign_error c [])\<lparr>calls := calls c @ issued b c\<rparr>)"
    using r i by simp
  show "length (issued b c) = 1" using i by simp
qed

lemma click_no_hass:
  "hass c = None \<Longrightarrow> preconditions b c \<Longrightarrow>
   card_after (click b c) = assign_error c []
   \<and> (config c \<noteq> None \<longrightarrow> click b c = Returns (assign_error c []))"
  by (cases b; auto simp: handler_defs assign_error_fields has_selection_def split: option.splits)

lemma snapshot_cong:
  "heap c' = heap c \<Longrightarrow> state c' = state c \<Longrightarrow> snapshot c' = snapshot c"
  by (simp add: snapshot_def)

lemma click_state:
  "preconditions b c \<Longrightarrow> state (card_after (click b c)) = state (assign_error c [])"
  by (cases b; auto simp: handler_defs assign_error_def has_selection_def split: option.splits)

section \<open>Lemmas about selecting and editing\<close>

lemma on_edit_event_days: "days (edit (state (on_edit_event c ev))) = days (edit (state c))"
  by (cases ev) (simp_all add: render_def)

lemma on_edit_event_other:
  "a \<noteq> days (edit (state c)) \<Longrightarrow> array_at (heap (on_edit_event c ev)) a = array_at (heap c) a"
  by (cases ev) (simp_all add: render_def toggleDay_other)

lemma on_edit_event_host:
  "hass (on_edit_event c ev) = hass c" "config (on_edit_event c ev) = config c"
  by (cases ev; simp add: render_def)+

lemma getSchedules_cong:
  "hass c' = hass c \<Longrightarrow> config c' = config c \<Longrightarrow> getSchedules c' = getSchedules c"
  by (simp add: getSchedules_def split: option.splits)

lemma edits_other:
  "a \<noteq> days (edit (state c)) \<Longrightarrow>
   array_at (heap (foldl on_edit_event c evs)) a = array_at (heap c) a"
proof (induction evs arbitrary: c)
  case Nil
  show ?case by simp
next
  case (Cons ev evs)
  from Cons.prems have "a \<noteq> days (edit (state (on_edit_event c ev)))"
    by (simp add: on_edit_event_days)
  then have "array_at (heap (foldl on_edit_event (on_edit_event c ev) evs)) a
               = array_at (heap (on_edit_event c ev)) a"
    by (rule Cons.IH)
  with Cons.prems show ?case by (simp add: on_edit_event_other)
qed

lemma edits_host:
  "hass (foldl on_edit_event c evs) = hass c \<and> config (foldl on_edit_event c evs) = config c"
  by (induction evs arbitrary: c) (simp_all add: on_edit_event_host)

lemma onSelectSchedule_found:
  assumes "find (\<lambda>sched. sched_id sched = i) (getSchedules c) = Some selected"
  shows "days (edit (state (onSelectSchedule c i))) = next_free (heap c)"
    and "array_at (heap (onSelectSchedule c i)) (next_free (heap c))
           = array_at (heap c) (sched_days selected)"
    and "a \<noteq> next_free (heap c) \<Longrightarrow> array_at (heap (onSelectSchedule c i)) a = array_at (heap c) a"
    and "hass (onSelectSchedule c i) = hass c"
    and "config (onSelectSchedule c i) = config c"
    and "selectedId (state (onSelectSchedule c i)) = Some i"
    and "error (state (onSelectSchedule c i)) = []"
  using assms by (simp_all add: onSelectSchedule_def alloc_def render_def)

section \<open>Lemmas about the concrete cards\<close>


lemma ex_validate_edit:
  "validate (heap (example_card hs sel)) (edit (state (example_card hs sel))) = []"
  by (simp add: example_card_def example_heap_def validate_def Number_def isNaN_def)

lemma ex_fields:
  "config (example_card hs sel) = Some example_config"
  "hass (example_card hs sel) = hs"
  "selectedId (state (example_card hs sel)) = sel"
  "calls (example_card hs sel) = []"
  "error (state (example_card hs sel)) = ''Select at least one day.''"
  by (simp_all add: example_card_def)

lemma ex_handleSave:
  "handleSave (example_card (Some (example_hass r)) (Some ''sched-1'')) =
     Returns
       ((assign_error (example_card (Some (example_hass r)) (Some ''sched-1'')) [])
          \<lparr>calls :=
             [(''enphase_envoy_cloud_control'', ''update_schedule'',
               UpdateData ''sched-1'' ''cfg'' ''08:00'' ''09:00'' (Finite 50) [1, 2, 3] True)]\<rparr>)"
  by (simp add: handleSave_def ex_validate_edit ex_fields assign_error_fields serviceCall_hass
      Let_def)
     (simp add: example_card_def example_config_def example_heap_def Number_def assign_error_def)

lemma ex_getSchedules:
  "getSchedules (example_card (Some (example_hass r)) sel) = [example_schedule]"
  by (simp add: getSchedules_def example_card_def example_hass_def example_config_def)

section \<open>Claims about validation\<close>

text \<open>
  C1. For every draft whose start time equals its end time, validation returns the
  time-range failure, whatever the days, the limit and the type are: the time-range
  test comes first.
\<close>

theorem validate_time_range_first:
  "start_time d = end_time d \<Longrightarrow> validate h d = InvalidTimeRange"
  by (simp add: validate_def InvalidTimeRange_def)

text \<open>
  The witness is a draft that breaks all three rules at once: equal times, no day, and a
  limit of 500.
\<close>

theorem validate_time_range_first_witness:
  "start_time \<lparr>schedule_type = ''cfg'', start_time = ''08:00'', end_time = ''08:00'',
                limit = Finite 500, days = 0\<rparr>
     = end_time \<lparr>schedule_type = ''cfg'', start_time = ''08:00'', end_time = ''08:00'',
                limit = Finite 500, days = 0\<rparr>
   \<and> validate \<lparr>array_at = (\<lambda>_. []), next_free = 1\<rparr>
        \<lparr>schedule_type = ''cfg'', start_time = ''08:00'', end_time = ''08:00'',
         limit = Finite 500, days = 0\<rparr> = InvalidTimeRange"
  using validate_time_range_first
    [of "\<lparr>schedule_type = ''cfg'', start_time = ''08:00'', end_time = ''08:00'',
          limit = Finite 500, days = 0\<rparr>"
        "\<lparr>array_at = (\<lambda>_. []), next_free = 1\<rparr>"]
  by simp

text \<open>
  C4, as stated: with different times and at least one day, validation fails with the
  limit message exactly when the limit is not an integer in \<open>[0,100]\<close>. The code tests
  the range only: a limit of 50.5 is not an integer, and the draft passes.
\<close>

theorem validate_fractional_limit_counterexample:
  "start_time \<lparr>schedule_type = ''cfg'', start_time = ''08:00'', end_time = ''09:00'',
                limit = Finite (101 / 2), days = 0\<rparr>
     \<noteq> end_time \<lparr>schedule_type = ''cfg'', start_time = ''08:00'', end_time = ''09:00'',
                limit = Finite (101 / 2), days = 0\<rparr>
   \<and> array_at \<lparr>array_at = (\<lambda>_. [1, 2, 3]), next_free = 1\<rparr> 0 \<noteq> []
   \<and> \<not> spec_limit_ok (Finite (101 / 2))
   \<and> validate \<lparr>array_at = (\<lambda>_. [1, 2, 3]), next_free = 1\<rparr>
        \<lparr>schedule_type = ''cfg'', start_time = ''08:00'', end_time = ''09:00'',
         limit = Finite (101 / 2), days = 0\<rparr> = Success
   \<and> Success \<noteq> LimitOutOfRange"
  by (simp add: validate_def spec_limit_ok_def floor_50_5 Success_def LimitOutOfRange_def
      Number_def isNaN_def)

text \<open>
  C4, amended: with different times and at least one day, validation fails with the
  limit message exactly when the limit is NaN, below 0 or above 100, and succeeds
  otherwise; a fractional limit inside the range passes.
\<close>

theorem validate_limit_range:
  "start_time d \<noteq> end_time d \<Longrightarrow> array_at h (days d) \<noteq> [] \<Longrightarrow>
   validate h d =
     (case limit d of
        Finite q \<Rightarrow> if 0 \<le> q \<and> q \<le> 100 then Success else LimitOutOfRange
      | _ \<Rightarrow> LimitOutOfRange)"
  by (auto simp: validate_def Success_def LimitOutOfRange_def Number_def isNaN_def
      split: jsnum.splits)

theorem validate_limit_range_witness:
  "validate \<lparr>array_at = (\<lambda>_. [1, 2, 3]), next_free = 1\<rparr>
        \<lparr>schedule_type = ''cfg'', start_time = ''08:00'', end_time = ''09:00'',
         limit = Finite (101 / 2), days = 0\<rparr> = Success
   \<and> validate \<lparr>array_at = (\<lambda>_. [1, 2, 3]), next_free = 1\<rparr>
        \<lparr>schedule_type = ''cfg'', start_time = ''08:00'', end_time = ''09:00'',
         limit = Finite 101, days = 0\<rparr> = LimitOutOfRange
   \<and> validate \<lparr>array_at = (\<lambda>_. [1, 2, 3]), next_free = 1\<rparr>
        \<lparr>schedule_type = ''cfg'', start_time = ''08:00'', end_time = ''09:00'',
         limit = NaN, days = 0\<rparr> = LimitOutOfRange"
  using
    validate_limit_range
      [of "\<lparr>schedule_type = ''cfg'', start_time = ''08:00'', end_time = ''09:00'',
            limit = Finite (101 / 2), days = 0\<rparr>"
          "\<lparr>array_at = (\<lambda>_. [1, 2, 3]), next_free = 1\<rparr>"]
    validate_limit_range
      [of "\<lparr>schedule_type = ''cfg'', start_time = ''08:00'', end_time = ''09:00'',
            limit = Finite 101, days = 0\<rparr>"
          "\<lparr>array_at = (\<lambda>_. [1, 2, 3]), next_free = 1\<rparr>"]
    validate_limit_range
      [of "\<lparr>schedule_type = ''cfg'', start_time = ''08:00'', end_time = ''09:00'',
            limit = NaN, days = 0\<rparr>"
          "\<lparr>array_at = (\<lambda>_. [1, 2, 3]), next_free = 1\<rparr>"]
  by simp

section \<open>Claims about toggling a day\<close>




text \<open>
  C6, as stated: for every draft and every day, toggling the day twice gives back the
  original set of days. \<^verbatim>\<open>_onSelectSchedule\<close> copies the days of the host's schedule as
  they are, so a draft may hold a day twice; each toggle then removes one occurrence:
  from \<open>[2,1,2]\<close>, toggling day 2 twice leaves \<open>[1]\<close>, and day 2 is gone from the set.
\<close>

theorem toggleDay_twice_duplicate_counterexample:
  "array_at \<lparr>array_at = (\<lambda>_. [2, 1, 2]), next_free = 1\<rparr> 0 = [2, 1, 2]
   \<and> array_at
        (toggleDay
           (toggleDay \<lparr>array_at = (\<lambda>_. [2, 1, 2]), next_free = 1\<rparr>
              \<lparr>schedule_type = ''cfg'', start_time = ''08:00'', end_time = ''09:00'',
               limit = Finite 50, days = 0\<rparr> 2)
           \<lparr>schedule_type = ''cfg'', start_time = ''08:00'', end_time = ''09:00'',
            limit = Finite 50, days = 0\<rparr> 2) 0 = [1]
   \<and> set [1 :: int] \<noteq> set [2, 1, 2]"
  by (simp add: toggleDay_def Let_def array_splice_def push_def)

text \<open>
  C6, amended: for every draft whose days array holds each day at most once, and for
  every day value, toggling the day twice gives back the original set of days; when the
  array was in ascending order, it is the same array element by element.
\<close>

theorem toggleDay_twice:
  "distinct (array_at h (days t)) \<Longrightarrow>
     set (array_at (toggleDay (toggleDay h t d) t d) (days t)) = set (array_at h (days t))
     \<and> (sorted (array_at h (days t))
          \<longrightarrow> array_at (toggleDay (toggleDay h t d) t d) (days t) = array_at h (days t))"
  by (simp add: toggleDay_target set_toggled_twice toggled_twice_sorted)

theorem toggleDay_twice_witness:
  "distinct [1, 2, 3 :: int] \<and> sorted [1, 2, 3 :: int]
   \<and> array_at example_heap (days (edit (state (example_card None None)))) = [1, 2, 3]
   \<and> array_at
        (toggleDay (toggleDay example_heap (edit (state (example_card None None))) 2)
           (edit (state (example_card None None))) 2)
        (days (edit (state (example_card None None)))) = [1, 2, 3]
   \<and> array_at
        (toggleDay (toggleDay example_heap (edit (state (example_card None None))) 9)
           (edit (state (example_card None None))) 9)
        (days (edit (state (example_card None None)))) = [1, 2, 3]"
proof -
  have a: "array_at example_heap (days (edit (state (example_card None None)))) = [1, 2, 3]"
    by (simp add: example_card_def example_heap_def)
  have d: "distinct (array_at example_heap (days (edit (state (example_card None None)))))"
    by (simp add: a)
  show ?thesis
    using toggleDay_twice [OF d, of 2] toggleDay_twice [OF d, of 9] a by simp
qed

section \<open>Claims about selecting a schedule\<close>

text \<open>
  C9. Selecting a schedule copies it: the edit draft gets a new array with the same days,
  and whatever the user then changes in the edit draft (type, start, end, limit, any
  number of day toggles) leaves the array of the authoritative schedule, and the list of
  schedules, as they were. The schedule's array is one that exists on the heap.
\<close>

theorem select_copies_days:
  assumes found: "find (\<lambda>sched. sched_id sched = i) (getSchedules c) = Some selected"
    and allocated: "sched_days selected < next_free (heap c)"
  shows "array_at (heap (onSelectSchedule c i)) (days (edit (state (onSelectSchedule c i))))
           = array_at (heap c) (sched_days selected)
     \<and> days (edit (state (onSelectSchedule c i))) \<noteq> sched_days selected
     \<and> array_at (heap (foldl on_edit_event (onSelectSchedule c i) evs)) (sched_days selected)
           = array_at (heap c) (sched_days selected)
     \<and> getSchedules (foldl on_edit_event (onSelectSchedule c i) evs) = getSchedules c"
proof -
  let ?c = "onSelectSchedule c i"
  have fresh: "days (edit (state ?c)) = next_free (heap c)"
    by (rule onSelectSchedule_found(1) [OF found])
  have other: "sched_days selected \<noteq> days (edit (state ?c))"
    using allocated fresh by simp
  have "array_at (heap (foldl on_edit_event ?c evs)) (sched_days selected)
          = array_at (heap ?c) (sched_days selected)"
    using other by (rule edits_other)
  also have "\<dots> = array_at (heap c) (sched_days selected)"
    using allocated by (simp add: onSelectSchedule_found(3) [OF found])
  finally have kept: "array_at (heap (foldl on_edit_event ?c evs)) (sched_days selected)
          = array_at (heap c) (sched_days selected)" .
  have "getSchedules (foldl on_edit_event ?c evs) = getSchedules c"
    by (rule getSchedules_cong) (simp_all add: edits_host onSelectSchedule_found [OF found])
  with kept other fresh show ?thesis
    by (simp add: onSelectSchedule_found(2) [OF found])
qed

text \<open>
  The witness selects \<open>sched-1\<close> (days \<open>[1,2,3]\<close>), then toggles day 2, sets the limit and
  toggles day 5: the copy reads \<open>[1,3,5]\<close>, the schedule's array still \<open>[1,2,3]\<close>.
\<close>

theorem select_copies_days_witness:
  "find (\<lambda>sched. sched_id sched = ''sched-1'')
       (getSchedules (example_card (Some (example_hass Resolved)) None)) = Some example_schedule
   \<and> sched_days example_schedule < next_free (heap (example_card (Some (example_hass Resolved)) None))
   \<and> array_at (heap (foldl on_edit_event
         (onSelectSchedule (example_card (Some (example_hass Resolved)) None) ''sched-1'')
         [EditDayChip 2, EditLimit (Finite 75), EditDayChip 5])) 0 = [1, 2, 3]
   \<and> array_at (heap (foldl on_edit_event
         (onSelectSchedule (example_card (Some (example_hass Resolved)) None) ''sched-1'')
         [EditDayChip 2, EditLimit (Finite 75), EditDayChip 5])) 3 = [1, 3, 5]
   \<and> days (edit (state (foldl on_edit_event
         (onSelectSchedule (example_card (Some (example_hass Resolved)) None) ''sched-1'')
         [EditDayChip 2, EditLimit (Finite 75), EditDayChip 5]))) = 3"
proof -
  let ?c = "example_card (Some (example_hass Resolved)) None"
  let ?evs = "[EditDayChip 2, EditLimit (Finite 75), EditDayChip 5]"
  have found: "find (\<lambda>sched. sched_id sched = ''sched-1'') (getSchedules ?c)
                 = Some example_schedule"
    by (simp add: ex_getSchedules example_schedule_def)
  have allocated: "sched_days example_schedule < next_free (heap ?c)"
    by (simp add: example_schedule_def example_card_def example_heap_def)
  have auth: "array_at (heap ?c) (sched_days example_schedule) = [1, 2, 3]"
    and zero: "sched_days example_schedule = 0"
    by (simp_all add: example_schedule_def example_card_def example_heap_def)
  have sel: "onSelectSchedule ?c ''sched-1'' =
      ?c\<lparr>state := (state ?c)
             \<lparr>selectedId := Some ''sched-1'',
              edit := \<lparr>schedule_type = ''cfg'', start_time = ''08:00'', end_time = ''09:00'',
                       limit = Finite 50, days = 3\<rparr>,
              error := []\<rparr>,
          heap := (heap ?c)\<lparr>array_at := (array_at (heap ?c))(3 := [1, 2, 3]), next_free := 4\<rparr>\<rparr>"
    using found
    by (simp add: onSelectSchedule_def alloc_def render_def)
       (simp add: example_schedule_def example_card_def example_heap_def)
  have edited: "array_at (heap (foldl on_edit_event (onSelectSchedule ?c ''sched-1'') ?evs)) 3
                  = [1, 3, 5]"
    and ref: "days (edit (state (foldl on_edit_event (onSelectSchedule ?c ''sched-1'') ?evs))) = 3"
    unfolding sel
    by (simp_all add: render_def toggleDay_def Let_def array_splice_def push_def
        example_card_def example_heap_def)
  from select_copies_days [OF found allocated, of ?evs] auth zero
  have "array_at (heap (foldl on_edit_event (onSelectSchedule ?c ''sched-1'') ?evs)) 0 = [1, 2, 3]"
    by simp
  with found allocated edited ref show ?thesis by blast
qed

section \<open>Claims about save, delete and add\<close>

text \<open>
  C7, as stated: save or delete with no selection ends with the no-selection error and no
  call. \<^verbatim>\<open>_handleSave\<close> validates the edit draft before it looks at the selection: on a
  fresh card (nothing selected, start and end both \<open>00:00\<close>) save ends with the
  time-range message.
\<close>

theorem save_without_selection_counterexample:
  "selectedId (state fresh_card) = None
   \<and> handleSave fresh_card = Returns (assign_error fresh_card InvalidTimeRange)
   \<and> error (state (card_after (handleSave fresh_card))) = InvalidTimeRange
   \<and> InvalidTimeRange \<noteq> NoSelectionUpdate"
  by (simp add: fresh_card_def new_card_def emptySchedule_def alloc_def handleSave_def
      validate_def Let_def render_def assign_error_def InvalidTimeRange_def
      NoSelectionUpdate_def)

text \<open>
  C7, amended: with no selection, delete ends with the no-selection error; save ends with
  the no-selection error when the edit draft passes validation, and with the validation
  message when it does not; in every case the handler returns and no call is issued.
\<close>

theorem no_selection:
  "selectedId (state c) = None \<Longrightarrow>
     handleDelete c = Returns (assign_error c NoSelectionDelete)
     \<and> handleSave c =
         Returns (assign_error c
           (if validate (heap c) (edit (state c)) = [] then NoSelectionUpdate
            else validate (heap c) (edit (state c))))
     \<and> calls (card_after (handleDelete c)) = calls c
     \<and> calls (card_after (handleSave c)) = calls c"
  by (simp add: handleSave_def handleDelete_def Let_def render_def assign_error_fields
      NoSelectionDelete_def NoSelectionUpdate_def)

text \<open>The witness: nothing selected, and an edit draft that passes validation.\<close>

theorem no_selection_witness:
  "selectedId (state (example_card (Some (example_hass Resolved)) None)) = None
   \<and> error (state (card_after (handleDelete (example_card (Some (example_hass Resolved)) None))))
       = NoSelectionDelete
   \<and> error (state (card_after (handleSave (example_card (Some (example_hass Resolved)) None))))
       = NoSelectionUpdate
   \<and> calls (card_after (handleDelete (example_card (Some (example_hass Resolved)) None))) = []
   \<and> calls (card_after (handleSave (example_card (Some (example_hass Resolved)) None))) = []"
proof -
  have n: "selectedId (state (example_card (Some (example_hass Resolved)) None)) = None"
    by (simp add: ex_fields)
  show ?thesis
    using no_selection [OF n] n
    by (simp add: ex_validate_edit assign_error_fields ex_fields)
qed




text \<open>
  C2, as stated: when the call of a save or add fails, the error becomes a message that
  carries the remote side's reason. \<^verbatim>\<open>_serviceCall\<close> drops the promise: with a host that
  rejects every call with \<open>token expired\<close>, save issues its call and the error is empty.
\<close>

theorem remote_rejection_counterexample:
  "callService (example_hass (Rejected ''token expired'')) ''enphase_envoy_cloud_control''
       ''update_schedule''
       (UpdateData ''sched-1'' ''cfg'' ''08:00'' ''09:00'' (Finite 50) [1, 2, 3] True)
     = Rejected ''token expired''
   \<and> calls (card_after (handleSave
         (example_card (Some (example_hass (Rejected ''token expired''))) (Some ''sched-1''))))
     = [(''enphase_envoy_cloud_control'', ''update_schedule'',
         UpdateData ''sched-1'' ''cfg'' ''08:00'' ''09:00'' (Finite 50) [1, 2, 3] True)]
   \<and> error (state (card_after (handleSave
         (example_card (Some (example_hass (Rejected ''token expired''))) (Some ''sched-1'')))))
     = []
   \<and> \<not> sublist ''token expired'' (error (state (card_after (handleSave
         (example_card (Some (example_hass (Rejected ''token expired''))) (Some ''sched-1''))))))"
proof -
  have "callService (example_hass (Rejected ''token expired'')) ''enphase_envoy_cloud_control''
       ''update_schedule''
       (UpdateData ''sched-1'' ''cfg'' ''08:00'' ''09:00'' (Finite 50) [1, 2, 3] True)
     = Rejected ''token expired''"
    by (simp add: example_hass_def)
  then show ?thesis
    by (simp add: ex_handleSave assign_error_fields)
qed

text \<open>
  C2, amended: when the call a save, delete or add issued is rejected, the card does not
  learn of it: the error stays cleared, and the drafts, their days and the selection are
  left unchanged.
\<close>

theorem remote_result_dropped:
  "click b c = Returns c' \<Longrightarrow> calls c' = calls c @ [(dmn, service, data)] \<Longrightarrow>
   hass c = Some h \<Longrightarrow> callService h dmn service data = Rejected reason \<Longrightarrow>
   error (state c') = []
   \<and> edit (state c') = edit (state c) \<and> add (state c') = add (state c)
   \<and> selectedId (state c') = selectedId (state c) \<and> heap c' = heap c"
  by (cases b; auto simp: handler_defs assign_error_def split: option.splits if_splits)

text \<open>The witness: the rejected save of the counterexample.\<close>

theorem remote_result_dropped_witness:
  "callService (example_hass (Rejected ''token expired'')) ''enphase_envoy_cloud_control''
       ''update_schedule''
       (UpdateData ''sched-1'' ''cfg'' ''08:00'' ''09:00'' (Finite 50) [1, 2, 3] True)
     = Rejected ''token expired''
   \<and> snapshot (card_after (click SaveBtn
         (example_card (Some (example_hass (Rejected ''token expired''))) (Some ''sched-1''))))
     = ((''cfg'', ''08:00'', ''09:00'', Finite 50, [1, 2, 3]),
        (''dtg'', ''22:00'', ''06:00'', Finite 40, [6, 7]), Some ''sched-1'', [])"
proof -
  let ?c = "example_card (Some (example_hass (Rejected ''token expired''))) (Some ''sched-1'')"
  let ?data = "UpdateData ''sched-1'' ''cfg'' ''08:00'' ''09:00'' (Finite 50) [1, 2, 3] True"
  let ?c' = "(assign_error ?c [])
          \<lparr>calls := [(''enphase_envoy_cloud_control'', ''update_schedule'', ?data)]\<rparr>"
  have r: "click SaveBtn ?c = Returns ?c'"
    by (simp add: ex_handleSave)
  have t: "calls ?c' = calls ?c @ [(''enphase_envoy_cloud_control'', ''update_schedule'', ?data)]"
    by (simp add: ex_fields)
  have h: "hass ?c = Some (example_hass (Rejected ''token expired''))"
    by (simp add: ex_fields)
  have f: "callService (example_hass (Rejected ''token expired''))
             ''enphase_envoy_cloud_control'' ''update_schedule'' ?data
           = Rejected ''token expired''"
    by (simp add: example_hass_def)
  from remote_result_dropped [OF r t h f] f r show ?thesis
    by (simp add: snapshot_def draft_view_def)
       (simp add: example_card_def example_heap_def)
qed

text \<open>
  C3, as stated: a save triggered while an earlier operation is still dispatching is
  refused and issues no second call. The card keeps no mark of a call in flight: a
  second click on save, right after the first, issues the same call again and leaves the
  error empty.
\<close>

theorem save_while_dispatching_counterexample:
  "calls (card_after (handleSave
       (example_card (Some (example_hass Resolved)) (Some ''sched-1''))))
     = [(''enphase_envoy_cloud_control'', ''update_schedule'',
         UpdateData ''sched-1'' ''cfg'' ''08:00'' ''09:00'' (Finite 50) [1, 2, 3] True)]
   \<and> calls (card_after (handleSave (card_after (handleSave
       (example_card (Some (example_hass Resolved)) (Some ''sched-1''))))))
     = [(''enphase_envoy_cloud_control'', ''update_schedule'',
         UpdateData ''sched-1'' ''cfg'' ''08:00'' ''09:00'' (Finite 50) [1, 2, 3] True),
        (''enphase_envoy_cloud_control'', ''update_schedule'',
         UpdateData ''sched-1'' ''cfg'' ''08:00'' ''09:00'' (Finite 50) [1, 2, 3] True)]
   \<and> calls (card_after (handleSave (card_after (handleSave
       (example_card (Some (example_hass Resolved)) (Some ''sched-1''))))))
     \<noteq> calls (card_after (handleSave
       (example_card (Some (example_hass Resolved)) (Some ''sched-1''))))
   \<and> error (state (card_after (handleSave (card_after (handleSave
       (example_card (Some (example_hass Resolved)) (Some ''sched-1''))))))) = []"
  by (simp add: ex_handleSave)
     (simp add: handleSave_def serviceCall_def hass_callService_def render_def Let_def
      assign_error_def validate_def Number_def isNaN_def example_card_def example_heap_def
      example_config_def)

text \<open>
  C3, amended: an operation whose own preconditions hold is never refused because of an
  earlier one. Right after any save, delete or add has issued its call, a click on any of
  the three buttons issues exactly the call it would have issued otherwise, and the error
  is cleared.
\<close>

theorem no_in_progress_guard:
  assumes cfg: "config c = Some cfg" and h: "hass c = Some h"
    and p1: "preconditions b1 c" and p2: "preconditions b2 c"
  shows "length (issued b1 c) = 1
     \<and> issued b2 (card_after (click b1 c)) = issued b2 c
     \<and> length (issued b2 c) = 1
     \<and> (\<exists>c2. click b2 (card_after (click b1 c)) = Returns c2
              \<and> error (state c2) = []
              \<and> calls c2 = calls c @ issued b1 c @ issued b2 c)"
proof -
  let ?c1 = "card_after (click b1 c)"
  have c1: "click b1 c = Returns ((assign_error c [])\<lparr>calls := calls c @ issued b1 c\<rparr>)"
    and l1: "length (issued b1 c) = 1"
    using click_dispatches_issued [OF cfg h p1] by simp_all
  have cfg1: "config ?c1 = Some cfg" and h1: "hass ?c1 = Some h"
    using cfg h by (simp_all add: click_frame)
  have p2': "preconditions b2 ?c1"
    using p2 by (simp add: preconditions_cong [of ?c1 c] click_frame)
  have same: "issued b2 ?c1 = issued b2 c"
    by (rule issued_cong) (simp_all add: click_frame)
  have c2: "click b2 ?c1 = Returns ((assign_error ?c1 [])\<lparr>calls := calls ?c1 @ issued b2 ?c1\<rparr>)"
    and l2: "length (issued b2 ?c1) = 1"
    using click_dispatches_issued [OF cfg1 h1 p2'] by simp_all
  have calls1: "calls ?c1 = calls c @ issued b1 c"
    using c1 by simp
  show ?thesis
    using l1 l2 same c2 calls1 by (simp add: assign_error_fields)
qed

text \<open>The witness: delete clicked right after save, on the same selection.\<close>

theorem no_in_progress_guard_witness:
  "preconditions SaveBtn (example_card (Some (example_hass Resolved)) (Some ''sched-1''))
   \<and> preconditions DeleteBtn (example_card (Some (example_hass Resolved)) (Some ''sched-1''))
   \<and> calls (card_after (click DeleteBtn (card_after (click SaveBtn
         (example_card (Some (example_hass Resolved)) (Some ''sched-1''))))))
       = [(''enphase_envoy_cloud_control'', ''update_schedule'',
           UpdateData ''sched-1'' ''cfg'' ''08:00'' ''09:00'' (Finite 50) [1, 2, 3] True),
          (''enphase_envoy_cloud_control'', ''delete_schedule'', DeleteData ''sched-1'' True)]
   \<and> error (state (card_after (click DeleteBtn (card_after (click SaveBtn
         (example_card (Some (example_hass Resolved)) (Some ''sched-1''))))))) = []"
proof -
  let ?c = "example_card (Some (example_hass Resolved)) (Some ''sched-1'')"
  have cfg: "config ?c = Some example_config" and h: "hass ?c = Some (example_hass Resolved)"
    by (simp_all add: ex_fields)
  have p1: "preconditions SaveBtn ?c" and p2: "preconditions DeleteBtn ?c"
    by (simp_all add: ex_validate_edit has_selection_def ex_fields)
  have i1: "issued SaveBtn ?c =
      [(''enphase_envoy_cloud_control'', ''update_schedule'',
        UpdateData ''sched-1'' ''cfg'' ''08:00'' ''09:00'' (Finite 50) [1, 2, 3] True)]"
    by (simp add: issued_def ex_handleSave ex_fields)
  have i2: "issued DeleteBtn ?c =
      [(''enphase_envoy_cloud_control'', ''delete_schedule'', DeleteData ''sched-1'' True)]"
    by (simp add: issued_def handleDelete_def serviceCall_def hass_callService_def Let_def
        ex_fields assign_error_fields example_config_def)
  from no_in_progress_guard [OF cfg h p1 p2]
  obtain c2 where "click DeleteBtn (card_after (click SaveBtn ?c)) = Returns c2"
    and "error (state c2) = []"
    and "calls c2 = calls ?c @ issued SaveBtn ?c @ issued DeleteBtn ?c"
    by blast
  then show ?thesis
    using p1 p2 i1 i2 by (simp add: ex_fields)
qed

text \<open>
  C10. With no host connection, a save, delete or add whose local preconditions hold
  clears the error and issues no call; the snapshot it leaves (drafts, selection, error)
  is the one the same click leaves when the host is there and the call is issued. On a
  configured card the handler returns normally.
\<close>

theorem unset_hass_drops_silently:
  "hass c = None \<Longrightarrow> preconditions b c \<Longrightarrow>
     error (state (card_after (click b c))) = []
     \<and> calls (card_after (click b c)) = calls c
     \<and> snapshot (card_after (click b c)) = snapshot (card_after (click b (c\<lparr>hass := Some h\<rparr>)))
     \<and> (config c \<noteq> None \<longrightarrow>
          click b c = Returns (assign_error c [])
          \<and> length (issued b (c\<lparr>hass := Some h\<rparr>)) = 1)"
proof -
  assume nh: "hass c = None" and pre: "preconditions b c"
  let ?d = "c\<lparr>hass := Some h\<rparr>"
  have pre': "preconditions b ?d"
    using pre by (simp add: preconditions_cong [of ?d c])
  have dropped: "card_after (click b c) = assign_error c []"
    and returns: "config c \<noteq> None \<longrightarrow> click b c = Returns (assign_error c [])"
    using click_no_hass [OF nh pre] by simp_all
  have "snapshot (card_after (click b ?d)) = snapshot (assign_error c [])"
  proof (rule snapshot_cong)
    show "heap (card_after (click b ?d)) = heap (assign_error c [])"
      by (simp add: click_frame assign_error_fields)
    show "state (card_after (click b ?d)) = state (assign_error c [])"
      using click_state [OF pre'] by (simp add: assign_error_def)
  qed
  moreover have "config c \<noteq> None \<longrightarrow> length (issued b ?d) = 1"
  proof
    assume "config c \<noteq> None"
    then obtain cfg where "config ?d = Some cfg" by auto
    moreover have "hass ?d = Some h" by simp
    ultimately show "length (issued b ?d) = 1"
      using pre' by (rule click_dispatches_issued(2))
  qed
  ultimately show ?thesis
    using dropped returns by (simp add: assign_error_fields)
qed

text \<open>
  The witness: save with \<open>sched-1\<close> selected, an earlier error on display and no host. The
  error is cleared and nothing is sent; with a host the same click sends the update.
\<close>

theorem unset_hass_drops_silently_witness:
  "hass (example_card None (Some ''sched-1'')) = None
   \<and> preconditions SaveBtn (example_card None (Some ''sched-1''))
   \<and> error (state (example_card None (Some ''sched-1''))) = ''Select at least one day.''
   \<and> error (state (card_after (click SaveBtn (example_card None (Some ''sched-1''))))) = []
   \<and> calls (card_after (click SaveBtn (example_card None (Some ''sched-1'')))) = []
   \<and> snapshot (card_after (click SaveBtn (example_card None (Some ''sched-1''))))
       = snapshot (card_after (click SaveBtn
           ((example_card None (Some ''sched-1''))\<lparr>hass := Some (example_hass Resolved)\<rparr>)))
   \<and> calls (card_after (click SaveBtn
           ((example_card None (Some ''sched-1''))\<lparr>hass := Some (example_hass Resolved)\<rparr>)))
       = [(''enphase_envoy_cloud_control'', ''update_schedule'',
           UpdateData ''sched-1'' ''cfg'' ''08:00'' ''09:00'' (Finite 50) [1, 2, 3] True)]"
proof -
  have nh: "hass (example_card None (Some ''sched-1'')) = None"
    by (simp add: ex_fields)
  have pre: "preconditions SaveBtn (example_card None (Some ''sched-1''))"
    by (simp add: ex_validate_edit has_selection_def ex_fields)
  have upd: "(example_card None (Some ''sched-1''))\<lparr>hass := Some (example_hass Resolved)\<rparr>
       = example_card (Some (example_hass Resolved)) (Some ''sched-1'')"
    by (simp add: example_card_def)
  have before: "error (state (example_card None (Some ''sched-1''))) = ''Select at least one day.''"
    by (simp add: ex_fields)
  have sent: "calls (card_after (click SaveBtn
           ((example_card None (Some ''sched-1''))\<lparr>hass := Some (example_hass Resolved)\<rparr>)))
       = [(''enphase_envoy_cloud_control'', ''update_schedule'',
           UpdateData ''sched-1'' ''cfg'' ''08:00'' ''09:00'' (Finite 50) [1, 2, 3] True)]"
    by (simp add: upd ex_handleSave)
  have none: "calls (example_card None (Some ''sched-1'')) = []"
    by (simp add: ex_fields)
  from unset_hass_drops_silently [OF nh pre, of "example_hass Resolved"]
  have cleared: "error (state (card_after (click SaveBtn (example_card None (Some ''sched-1'')))))
                   = []"
    and kept: "calls (card_after (click SaveBtn (example_card None (Some ''sched-1''))))
                 = calls (example_card None (Some ''sched-1''))"
    and same: "snapshot (card_after (click SaveBtn (example_card None (Some ''sched-1''))))
       = snapshot (card_after (click SaveBtn
           ((example_card None (Some ''sched-1''))\<lparr>hass := Some (example_hass Resolved)\<rparr>)))"
    by blast+
  from kept none
  have "calls (card_after (click SaveBtn (example_card None (Some ''sched-1'')))) = []"
    by simp
  with nh pre before cleared same sent show ?thesis by blast
qed

end
